theory Spec2Isabelle
  imports Complex_Main "HOL-Library.AList" "HOL-Library.Log_Nat"
begin

section \<open>Python numbers used by the ledger\<close>

text \<open>
  Amounts, balances and rates are Python floats: IEEE 754 binary64 values. A finite float
  is modelled by the real number it denotes (the two zeros are one value), next to the
  three special values. Every arithmetic result is rounded to the nearest binary64 value,
  ties to even, and becomes an infinity when it is out of range; every comparison with
  NaN is false.
\<close>

datatype pyfloat = Finite real | PosInf | NegInf | NaN

text \<open>
  \<open>ilog2 x\<close> is the integer part of the binary logarithm of a positive \<open>x\<close>. A binary64
  value is an integer multiple of \<open>2 ^ e\<close> with a multiplier below \<open>2 ^ 53\<close> in magnitude and
  \<open>e \<ge> -1074\<close>; \<open>round64\<close> rounds a real number to such a value.
\<close>

definition ilog2 :: "real \<Rightarrow> int" where
  "ilog2 x = (if 1 \<le> x then int (floorlog 2 (nat \<lfloor>x\<rfloor>)) - 1
              else - int (floorlog 2 (nat (\<lceil>1 / x\<rceil> - 1))))"

definition pow2 :: "int \<Rightarrow> real" where
  "pow2 e = (if 0 \<le> e then 2 ^ nat e else 1 / 2 ^ nat (- e))"

definition round_half_even :: "real \<Rightarrow> int" where
  "round_half_even x =
     (let f = \<lfloor>x\<rfloor>; d = x - of_int f
      in if d < 1 / 2 then f else if 1 / 2 < d then f + 1 else if even f then f else f + 1)"

definition quantum :: "real \<Rightarrow> real" where
  "quantum x = pow2 (max (ilog2 \<bar>x\<bar> - 52) (- 1074))"

definition round64 :: "real \<Rightarrow> pyfloat" where
  "round64 x =
     (if x = 0 then Finite 0
      else
        let r = of_int (round_half_even (x / quantum x)) * quantum x
        in if 2 ^ 1024 \<le> \<bar>r\<bar> then (if 0 < x then PosInf else NegInf) else Finite r)"


fun ple :: "pyfloat \<Rightarrow> pyfloat \<Rightarrow> bool" where
  "ple (Finite x) (Finite y) = (x \<le> y)"
| "ple (Finite x) PosInf = True"
| "ple NegInf (Finite y) = True"
| "ple NegInf PosInf = True"
| "ple PosInf PosInf = True"
| "ple NegInf NegInf = True"
| "ple _ _ = False"


fun padd :: "pyfloat \<Rightarrow> pyfloat \<Rightarrow> pyfloat" where
  "padd (Finite x) (Finite y) = round64 (x + y)"
| "padd NaN _ = NaN"
| "padd _ NaN = NaN"
| "padd PosInf NegInf = NaN"
| "padd NegInf PosInf = NaN"
| "padd PosInf _ = PosInf"
| "padd _ PosInf = PosInf"
| "padd NegInf _ = NegInf"
| "padd _ NegInf = NegInf"


text \<open>The product of an infinity and a finite factor takes the sign of the factor; with a zero factor it is NaN.\<close>

definition inf_times :: "bool \<Rightarrow> real \<Rightarrow> pyfloat" where
  "inf_times positive y =
     (if y = 0 then NaN else if (0 < y) = positive then PosInf else NegInf)"


text \<open>
  A value passed where a number is expected: a Python int (of any size; \<open>bool\<close> is an
  int), a float, or something for which \<open>isinstance(v, (int, float))\<close> fails (a string,
  \<open>None\<close>, a list).
\<close>

datatype pyval = PyInt int | PyFloat pyfloat | NotNum

text \<open>
  The messages of the built-in exceptions are Russian text in the source; the model keeps
  which check raised, and the values the message is formatted from.
  \<^item> \<open>EmptyCurrencyCode\<close>: the currency code is empty or blank;
  \<^item> \<open>InvalidCurrency c\<close>: \<open>Wallet._validate_currency\<close> found \<open>c\<close> unregistered;
  \<^item> \<open>NonPositiveAmount\<close>: \<open>Wallet._validate_amount\<close> saw \<open>amount <= 0\<close>;
  \<^item> \<open>NegativeBalance\<close>: the balance setter saw \<open>value < 0\<close>;
  \<^item> \<open>RateNotFound f t\<close>: \<open>_get_exchange_rate\<close> found no rate between \<open>f\<close> and \<open>t\<close>.
\<close>

datatype value_error =
    EmptyCurrencyCode
  | InvalidCurrency string
  | NonPositiveAmount
  | NegativeBalance
  | RateNotFound string string

datatype error =
    TypeError
  | ValueError value_error
  | ZeroDivisionError
  | OverflowError
  | IndexError
  | InsufficientFundsError string pyfloat pyval
  | CurrencyNotFoundError string
  | WalletNotFoundError string

text \<open>Float division raises on a zero divisor; a finite value over an infinity is zero.\<close>

fun pdiv :: "pyfloat \<Rightarrow> pyfloat \<Rightarrow> error + pyfloat" where
  "pdiv a (Finite y) =
     (if y = 0 then Inl ZeroDivisionError
      else Inr (case a of Finite x \<Rightarrow> round64 (x / y)
                | PosInf \<Rightarrow> inf_times True y
                | NegInf \<Rightarrow> inf_times False y
                | NaN \<Rightarrow> NaN))"
| "pdiv (Finite x) PosInf = Inr (Finite 0)"
| "pdiv (Finite x) NegInf = Inr (Finite 0)"
| "pdiv _ _ = Inr NaN"

text \<open>
  An int that meets a float in \<open>+\<close>, \<open>-\<close> or \<open>float()\<close>, or that is formatted with
  \<open>.4f\<close>, is converted to the nearest float; the conversion raises OverflowError when
  the int is too large. Comparing a float with an int compares the exact values.
\<close>

definition to_float :: "pyval \<Rightarrow> error + pyfloat" where
  "to_float v =
     (case v of
        PyFloat x \<Rightarrow> Inr x
      | PyInt n \<Rightarrow>
          (case round64 (of_int n) of Finite r \<Rightarrow> Inr (Finite r) | _ \<Rightarrow> Inl OverflowError)
      | NotNum \<Rightarrow> Inl TypeError)"

definition num_value :: "pyval \<Rightarrow> pyfloat" where
  "num_value v = (case v of PyFloat x \<Rightarrow> x | PyInt n \<Rightarrow> Finite (of_int n) | NotNum \<Rightarrow> NaN)"

text \<open>\<open>v <= 0\<close>, \<open>v < 0\<close> and \<open>x < v\<close> for a number \<open>v\<close> and a float \<open>x\<close>.\<close>

definition num_le_zero :: "pyval \<Rightarrow> bool" where
  "num_le_zero v = ple (num_value v) (Finite 0)"



section \<open>Strings\<close>

text \<open>
  A character is a code point below 256. \<open>str.upper\<close> and \<open>str.lower\<close> are modelled on
  the ASCII letters, of which currency codes and source names consist: a-z and A-Z are
  mapped to each other and every other character is left as it is. \<open>str.strip\<close> removes
  leading and trailing white space.
\<close>

definition char_upper :: "char \<Rightarrow> char" where
  "char_upper c =
     (let n = (of_char c :: nat) in if 97 \<le> n \<and> n \<le> 122 then char_of (n - 32) else c)"

definition upper :: "string \<Rightarrow> string" where
  "upper s = map char_upper s"

definition is_space :: "char \<Rightarrow> bool" where
  "is_space c =
     (let n = (of_char c :: nat)
      in (9 \<le> n \<and> n \<le> 13) \<or> (28 \<le> n \<and> n \<le> 32) \<or> n = 133 \<or> n = 160)"

definition strip :: "string \<Rightarrow> string" where
  "strip s = rev (dropWhile is_space (rev (dropWhile is_space s)))"

section \<open>The currency registry (core/currencies.py)\<close>

datatype currency =
    FiatCurrency string string string
  | CryptoCurrency string string string real

fun code :: "currency \<Rightarrow> string" where
  "code (FiatCurrency n c i) = upper c"
| "code (CryptoCurrency n c a m) = upper c"

type_synonym registry = "string \<rightharpoonup> currency"

definition register_currency :: "currency \<Rightarrow> registry \<Rightarrow> registry" where
  "register_currency cur reg = reg(upper (code cur) \<mapsto> cur)"

definition get_currency :: "registry \<Rightarrow> string \<Rightarrow> error + currency" where
  "get_currency reg c =
     (let code_upper = upper c in
      case reg code_upper of
        None \<Rightarrow> Inl (CurrencyNotFoundError code_upper)
      | Some cur \<Rightarrow> Inr cur)"

text \<open>The registry as the module leaves it after import: seven predefined currencies.\<close>

definition CURRENCY_REGISTRY :: registry where
  "CURRENCY_REGISTRY =
     (register_currency (CryptoCurrency ''Solana'' ''SOL'' ''Proof of History'' 78500000000)
     (register_currency (CryptoCurrency ''Ethereum'' ''ETH'' ''Ethash'' 285000000000)
     (register_currency (CryptoCurrency ''Bitcoin'' ''BTC'' ''SHA-256'' 1120000000000)
     (register_currency (FiatCurrency ''Russian Ruble'' ''RUB'' ''Russia'')
     (register_currency (FiatCurrency ''British Pound'' ''GBP'' ''United Kingdom'')
     (register_currency (FiatCurrency ''Euro'' ''EUR'' ''Eurozone'')
     (register_currency (FiatCurrency ''US Dollar'' ''USD'' ''United States'')
        Map.empty)))))))"

section \<open>Wallet (core/models.py)\<close>

record wallet =
  currency_code :: string
  balance :: pyfloat

definition validate_currency :: "registry \<Rightarrow> string \<Rightarrow> error + unit" where
  "validate_currency reg c =
     (if c = [] \<or> strip c = [] then Inl (ValueError EmptyCurrencyCode)
      else case get_currency reg c of
             Inl e \<Rightarrow> Inl (ValueError (InvalidCurrency c))
           | Inr cur \<Rightarrow> Inr ())"

definition validate_amount :: "pyval \<Rightarrow> error + unit" where
  "validate_amount a =
     (if a = NotNum then Inl TypeError
      else if num_le_zero a then Inl (ValueError NonPositiveAmount)
      else Inr ())"

text \<open>\<open>self._balance += amount\<close>: the balance is a float, an int amount is converted.\<close>

definition deposit :: "wallet \<Rightarrow> pyval \<Rightarrow> error + wallet" where
  "deposit w a =
     (case validate_amount a of
        Inl e \<Rightarrow> Inl e
      | Inr u \<Rightarrow>
          (case to_float a of
             Inl e \<Rightarrow> Inl e
           | Inr x \<Rightarrow> Inr (w\<lparr>balance := padd (balance w) x\<rparr>)))"




text \<open>
  \<open>Wallet.__init__(currency_code, balance=0.0)\<close>: validates the code, sets the balance
  to zero and then deposits the initial balance through \<open>deposit\<close>.
\<close>

definition Wallet_init :: "registry \<Rightarrow> string \<Rightarrow> pyval \<Rightarrow> error + wallet" where
  "Wallet_init reg c bal =
     (case validate_currency reg c of
        Inl e \<Rightarrow> Inl e
      | Inr u \<Rightarrow> deposit \<lparr>currency_code = upper c, balance = Finite 0\<rparr> bal)"

definition Wallet_new :: "registry \<Rightarrow> string \<Rightarrow> error + wallet" where
  "Wallet_new reg c = Wallet_init reg c (PyFloat (Finite 0))"

section \<open>Portfolio (core/models.py)\<close>

text \<open>The dictionary of wallets keeps insertion order, so it is an association list.\<close>

record portfolio =
  user_id :: int
  wallets :: "(string \<times> wallet) list"

definition Portfolio_init :: "int \<Rightarrow> portfolio" where
  "Portfolio_init uid = \<lparr>user_id = uid, wallets = []\<rparr>"

definition add_currency :: "registry \<Rightarrow> portfolio \<Rightarrow> string \<Rightarrow> error + (wallet \<times> portfolio)" where
  "add_currency reg p c0 =
     (let c = upper c0 in
      case map_of (wallets p) c of
        Some w \<Rightarrow> Inr (w, p)
      | None \<Rightarrow>
          (case Wallet_new reg c of
             Inl e \<Rightarrow> Inl e
           | Inr new_wallet \<Rightarrow>
               Inr (new_wallet, p\<lparr>wallets := AList.update c new_wallet (wallets p)\<rparr>)))"



section \<open>Sequences of wallet operations\<close>

text \<open>A run of \<open>deposit\<close> and \<open>withdraw\<close> calls on one wallet; the first exception ends it.\<close>

datatype ledger_op = Deposit pyval | Withdraw pyval




text \<open>
  The sum of the deposited amounts minus the sum of the withdrawn amounts, read in two
  ways: as the exact number (for finite amounts), and as the float sums of the float
  amounts, each added up from \<open>0.0\<close> in the order of the operations, as Python's
  \<open>sum\<close> does.
\<close>

fun net_exact :: "ledger_op list \<Rightarrow> real" where
  "net_exact [] = 0"
| "net_exact (Deposit (PyFloat (Finite r)) # xs) = r + net_exact xs"
| "net_exact (Deposit (PyInt n) # xs) = of_int n + net_exact xs"
| "net_exact (Withdraw (PyFloat (Finite r)) # xs) = net_exact xs - r"
| "net_exact (Withdraw (PyInt n) # xs) = net_exact xs - of_int n"
| "net_exact (_ # xs) = net_exact xs"






fun deposits_exact :: "ledger_op list \<Rightarrow> real" where
  "deposits_exact [] = 0"
| "deposits_exact (Deposit (PyFloat (Finite r)) # xs) = r + deposits_exact xs"
| "deposits_exact (Deposit (PyInt n) # xs) = of_int n + deposits_exact xs"
| "deposits_exact (_ # xs) = deposits_exact xs"

section \<open>Loading and saving a portfolio (core/utils.py)\<close>







section \<open>Use-case helpers (core/utils.py)\<close>


section \<open>Rate resolution (core/usecases.py)\<close>

text \<open>
  \<open>TradingUsecases.exchange_rates\<close> maps a pair key \<open>FROM_TO\<close> to its rate;
  \<open>TradingUsecases._get_exchange_rate\<close> looks a rate up in it. The ValueError it raises
  when every lookup fails carries both codes in its message.
\<close>

type_synonym rates = "string \<rightharpoonup> pyfloat"

definition pair_key :: "string \<Rightarrow> string \<Rightarrow> string" where
  "pair_key a b = a @ ''_'' @ b"

text \<open>The last attempt of \<open>_get_exchange_rate\<close>, reached when no earlier one returned.\<close>

definition through_base :: "rates \<Rightarrow> string \<Rightarrow> string \<Rightarrow> string \<Rightarrow> error + pyfloat" where
  "through_base exchange_rates base_currency from_currency to_currency =
     (case exchange_rates (pair_key from_currency base_currency) of
        None \<Rightarrow> Inl (ValueError (RateNotFound from_currency to_currency))
      | Some from_rate \<Rightarrow>
          (case exchange_rates (pair_key to_currency base_currency) of
             None \<Rightarrow> Inl (ValueError (RateNotFound from_currency to_currency))
           | Some to_rate \<Rightarrow> pdiv from_rate to_rate))"

definition TradingUsecases_get_exchange_rate :: "rates \<Rightarrow> string \<Rightarrow> string \<Rightarrow> error + pyfloat" where
  "TradingUsecases_get_exchange_rate exchange_rates from_currency to_currency =
     (case exchange_rates (pair_key from_currency to_currency) of
        Some r \<Rightarrow> Inr r
      | None \<Rightarrow>
     (case exchange_rates (pair_key to_currency from_currency) of
        Some r \<Rightarrow> pdiv (Finite 1) r
      | None \<Rightarrow>
     (let base_currency = ''USD'' in
      if from_currency = base_currency then
        (case exchange_rates (pair_key to_currency base_currency) of
           Some r \<Rightarrow> pdiv (Finite 1) r
         | None \<Rightarrow> through_base exchange_rates base_currency from_currency to_currency)
      else if to_currency = base_currency then
        (case exchange_rates (pair_key from_currency base_currency) of
           Some r \<Rightarrow> Inr r
         | None \<Rightarrow> through_base exchange_rates base_currency from_currency to_currency)
      else through_base exchange_rates base_currency from_currency to_currency)))"

text \<open>The rates that \<open>DatabaseManager._init_data_files\<close> writes when no rates file exists.\<close>

definition initial_rates :: rates where
  "initial_rates =
     [''EUR_USD'' \<mapsto> Finite 1.0786, ''BTC_USD'' \<mapsto> Finite 59337.21,
      ''RUB_USD'' \<mapsto> Finite 0.01016, ''ETH_USD'' \<mapsto> Finite 3720]"

subsection \<open>The resolver as the specification words it\<close>

text \<open>
  The specification's \<open>resolve(from, to)\<close> over a snapshot's pairs and an anchor currency:
  identity first; then the direct pair; the inverse pair; triangulation when one side is
  the anchor; double triangulation through the anchor; else \<open>RateNotFoundError(from, to)\<close>,
  which is the ValueError above. Each step is an attempt that may yield nothing.
\<close>

definition direct_rate :: "rates \<Rightarrow> string \<Rightarrow> string \<Rightarrow> (error + pyfloat) option" where
  "direct_rate ps f t = map_option Inr (ps (pair_key f t))"

definition inverse_rate :: "rates \<Rightarrow> string \<Rightarrow> string \<Rightarrow> (error + pyfloat) option" where
  "inverse_rate ps f t = map_option (pdiv (Finite 1)) (ps (pair_key t f))"

definition from_anchor_rate :: "string \<Rightarrow> rates \<Rightarrow> string \<Rightarrow> string \<Rightarrow> (error + pyfloat) option" where
  "from_anchor_rate anchor ps f t = (if f = anchor then inverse_rate ps anchor t else None)"

definition to_anchor_rate :: "string \<Rightarrow> rates \<Rightarrow> string \<Rightarrow> string \<Rightarrow> (error + pyfloat) option" where
  "to_anchor_rate anchor ps f t = (if t = anchor then direct_rate ps f anchor else None)"

definition double_rate :: "string \<Rightarrow> rates \<Rightarrow> string \<Rightarrow> string \<Rightarrow> (error + pyfloat) option" where
  "double_rate anchor ps f t =
     (case ps (pair_key f anchor) of
        None \<Rightarrow> None
      | Some a \<Rightarrow> (case ps (pair_key t anchor) of None \<Rightarrow> None | Some b \<Rightarrow> Some (pdiv a b)))"

fun first_some :: "'a option list \<Rightarrow> 'a option" where
  "first_some [] = None"
| "first_some (None # xs) = first_some xs"
| "first_some (Some x # xs) = Some x"

definition resolve :: "string \<Rightarrow> rates \<Rightarrow> string \<Rightarrow> string \<Rightarrow> error + pyfloat" where
  "resolve anchor ps f t =
     (if f = t then Inr (Finite 1)
      else case first_some [direct_rate ps f t, inverse_rate ps f t,
                            from_anchor_rate anchor ps f t, to_anchor_rate anchor ps f t,
                            double_rate anchor ps f t] of
             Some r \<Rightarrow> r
           | None \<Rightarrow> Inl (ValueError (RateNotFound f t)))"

section \<open>Portfolio valuation (core/models.py, core/usecases.py)\<close>



text \<open>
  The per-wallet breakdown of \<open>TradingUsecases.get_portfolio\<close>: one entry per wallet, with
  rate and value \<open>None\<close> when \<open>_get_exchange_rate\<close> raises ValueError; any other exception
  leaves the loop.
\<close>

record wallet_info =
  currency :: string
  info_balance :: pyfloat
  rate :: "pyfloat option"
  value_in_base :: "pyfloat option"







section \<open>Rate storage (parser_service/storage.py)\<close>

text \<open>
  The rates document \<open>{pairs: {key: entry}, last_refresh}\<close> and the history list, as the
  two JSON files hold them; a key that is absent is \<open>None\<close>, and a missing or unreadable
  rates file reads as the document with no key. Reading and writing the files are taken
  to succeed.
\<close>

record rate_data =
  rd_rate :: pyfloat
  updated_at :: string
  source :: string

record rates_document =
  pairs :: "(string \<rightharpoonup> rate_data) option"
  last_refresh :: "string option"

record history_record =
  hr_id :: string
  from_currency :: string
  to_currency :: string
  hr_rate :: pyfloat
  hr_timestamp :: string
  hr_source :: string
  meta_client :: string

record storage =
  rates_file :: rates_document
  history_file :: "history_record list"

definition load_current_rates :: "storage \<Rightarrow> rates_document" where
  "load_current_rates st = rates_file st"

definition save_current_rates :: "storage \<Rightarrow> rates_document \<Rightarrow> string \<Rightarrow> storage" where
  "save_current_rates st rates_data now =
     st\<lparr>rates_file :=
          (if last_refresh rates_data = None then rates_data\<lparr>last_refresh := Some now\<rparr>
           else rates_data)\<rparr>"

definition MAX_HISTORY_SIZE :: nat where
  "MAX_HISTORY_SIZE = 10000"

definition append_to_history :: "storage \<Rightarrow> history_record \<Rightarrow> storage" where
  "append_to_history st record =
     (let history = history_file st @ [record];
          history = (if length history > MAX_HISTORY_SIZE
                     then drop (length history - MAX_HISTORY_SIZE) history else history)
      in st\<lparr>history_file := history\<rparr>)"

section \<open>Rate aggregation (parser_service/updater.py)\<close>

text \<open>
  A client is its class and what its \<open>fetch_rates()\<close> does in this run: it returns a
  dictionary of rates (here its items, in order), or it raises \<open>ApiRequestError\<close>, and
  \<open>Inl\<close> holds \<open>str\<close> of that exception. Both clients turn every exception of their own
  into \<open>ApiRequestError\<close>.
\<close>

datatype client_kind = CoinGeckoClient | ExchangeRateApiClient

record api_client =
  kind :: client_kind
  fetch_rates :: "string + (string \<times> rate_data) list"

fun class_name :: "client_kind \<Rightarrow> string" where
  "class_name CoinGeckoClient = ''CoinGeckoClient''"
| "class_name ExchangeRateApiClient = ''ExchangeRateApiClient''"

definition char_lower :: "char \<Rightarrow> char" where
  "char_lower c =
     (let n = (of_char c :: nat) in if 65 \<le> n \<and> n \<le> 90 then char_of (n + 32) else c)"

definition lower :: "string \<Rightarrow> string" where
  "lower s = map char_lower s"

text \<open>\<open>str.split\<close> with a one-character separator, and indexing that raises out of range.\<close>

fun split_on :: "char \<Rightarrow> string \<Rightarrow> string list" where
  "split_on sep [] = [[]]"
| "split_on sep (c # cs) =
     (if c = sep then [] # split_on sep cs
      else (case split_on sep cs of [] \<Rightarrow> [[c]] | x # xs \<Rightarrow> (c # x) # xs))"

definition item :: "'a list \<Rightarrow> nat \<Rightarrow> error + 'a" where
  "item xs i = (if i < length xs then Inr (xs ! i) else Inl IndexError)"

record update_results =
  success :: bool
  updated_pairs :: "string list"
  errors :: "string list"
  timestamp :: string

text \<open>The filter on the \<open>source\<close> argument: only the two known names narrow the list.\<close>

definition clients_to_use :: "string option \<Rightarrow> api_client list \<Rightarrow> api_client list" where
  "clients_to_use src clients =
     (case src of
        None \<Rightarrow> clients
      | Some s \<Rightarrow>
          if s = [] then clients
          else let source_lower = lower s in
            if source_lower = ''coingecko''
            then filter (\<lambda>client. kind client = CoinGeckoClient) clients
            else if source_lower = ''exchangerate''
            then filter (\<lambda>client. kind client = ExchangeRateApiClient) clients
            else clients)"

definition make_history_record :: "string \<Rightarrow> string \<Rightarrow> rate_data \<Rightarrow> error + history_record" where
  "make_history_record client_name pair rd =
     (case item (split_on CHR ''_'' pair) 0 of
        Inl e \<Rightarrow> Inl e
      | Inr f \<Rightarrow>
          (case item (split_on CHR ''_'' pair) 1 of
             Inl e \<Rightarrow> Inl e
           | Inr t \<Rightarrow>
               Inr \<lparr>hr_id = pair @ ''_'' @ updated_at rd, from_currency = f, to_currency = t,
                    hr_rate = rd_rate rd, hr_timestamp = updated_at rd, hr_source = source rd,
                    meta_client = client_name\<rparr>))"

text \<open>
  The state of a run: the pairs of the loaded document as updated so far, the result
  summary, and the storage. An exception that the loop does not catch leaves the run
  with the storage as it is at that moment.
\<close>

record run_state =
  current_pairs :: "string \<rightharpoonup> rate_data"
  results :: update_results
  store :: storage

fun merge_new_rates ::
  "string \<Rightarrow> (string \<times> rate_data) list \<Rightarrow> run_state \<Rightarrow> (error \<times> storage) + run_state" where
  "merge_new_rates client_name [] s = Inr s"
| "merge_new_rates client_name ((pair, rd) # rest) s =
     (let s1 = s\<lparr>current_pairs := (current_pairs s)(pair \<mapsto> rd),
                  results := (results s)\<lparr>updated_pairs := updated_pairs (results s) @ [pair]\<rparr>\<rparr>
      in case make_history_record client_name pair rd of
           Inl e \<Rightarrow> Inl (e, store s1)
         | Inr h \<Rightarrow>
             merge_new_rates client_name rest (s1\<lparr>store := append_to_history (store s1) h\<rparr>))"

definition error_msg :: "string \<Rightarrow> string \<Rightarrow> string" where
  "error_msg client_name e = ''Failed to fetch rates from '' @ client_name @ '': '' @ e"

fun poll_clients :: "api_client list \<Rightarrow> run_state \<Rightarrow> (error \<times> storage) + run_state" where
  "poll_clients [] s = Inr s"
| "poll_clients (client # rest) s =
     (let client_name = class_name (kind client) in
      case fetch_rates client of
        Inr new_rates \<Rightarrow>
          (case merge_new_rates client_name new_rates s of
             Inl e \<Rightarrow> Inl e
           | Inr s' \<Rightarrow> poll_clients rest s')
      | Inl e \<Rightarrow>
          poll_clients rest
            (s\<lparr>results := (results s)\<lparr>errors := errors (results s) @ [error_msg client_name e],
                                       success := False\<rparr>\<rparr>))"

text \<open>
  \<open>RatesUpdater.run_update\<close>; \<open>t_start\<close> and \<open>t_end\<close> are the two readings of
  \<open>datetime.utcnow().isoformat()\<close>, for the summary and for \<open>last_refresh\<close>.
\<close>

definition run_update ::
  "storage \<Rightarrow> api_client list \<Rightarrow> string option \<Rightarrow> string \<Rightarrow> string
     \<Rightarrow> (error \<times> storage) + (update_results \<times> storage)" where
  "run_update st clients src t_start t_end =
     (let current_rates = load_current_rates st;
          pairs0 = (case pairs current_rates of None \<Rightarrow> Map.empty | Some m \<Rightarrow> m);
          update_results = \<lparr>success = True, updated_pairs = [], errors = [], timestamp = t_start\<rparr>
      in case poll_clients (clients_to_use src clients)
                \<lparr>current_pairs = pairs0, results = update_results, store = st\<rparr> of
           Inl e \<Rightarrow> Inl e
         | Inr s \<Rightarrow>
             Inr (results s,
                  save_current_rates (store s)
                    (current_rates\<lparr>pairs := Some (current_pairs s), last_refresh := Some t_end\<rparr>)
                    t_end))"

subsection \<open>What a run fetched\<close>

text \<open>The items a client returned (none if it failed), and the messages of the clients that failed.\<close>

definition fetched :: "api_client \<Rightarrow> (string \<times> rate_data) list" where
  "fetched client = (case fetch_rates client of Inl e \<Rightarrow> [] | Inr d \<Rightarrow> d)"

definition failure :: "api_client \<Rightarrow> string list" where
  "failure client =
     (case fetch_rates client of
        Inl e \<Rightarrow> [error_msg (class_name (kind client)) e]
      | Inr d \<Rightarrow> [])"

definition well_formed_keys :: "api_client \<Rightarrow> bool" where
  "well_formed_keys client = list_all (\<lambda>(k, rd). CHR ''_'' \<in> set k) (fetched client)"

section \<open>Freshness of the cached rates (infra/database.py)\<close>

text \<open>
  \<open>DatabaseManager.get_rates\<close> returns the rates file as parsed JSON, with no check of
  the values: the items of the top-level object, or the empty list that \<open>_read_json\<close>
  returns for a missing or corrupt file. A value is a string, or something else.
\<close>

datatype json_value = JString string | JNumber real | JBoolean bool | JNull | JContainer

text \<open>
  A \<open>datetime\<close>: its position on the time line in seconds, and whether it carries a UTC
  offset. \<open>datetime.fromisoformat\<close> belongs to the standard library and is a parameter:
  \<open>None\<close> stands for its ValueError on a string it cannot parse. It raises TypeError on an
  argument that is not a string, and subtracting an offset-aware \<open>datetime\<close> from the
  naive \<open>datetime.now()\<close> raises TypeError.
\<close>

record pydatetime =
  seconds :: real
  aware :: bool

definition RATES_TTL_SECONDS :: int where
  "RATES_TTL_SECONDS = 300"

definition are_rates_fresh ::
  "(string \<Rightarrow> pydatetime option) \<Rightarrow> real \<Rightarrow> int \<Rightarrow> (string \<times> json_value) list \<Rightarrow> error + bool" where
  "are_rates_fresh fromisoformat now ttl_seconds rates =
     (if rates = [] \<or> map_of rates ''last_refresh'' = None then Inr False
      else
        (case the (map_of rates ''last_refresh'') of
           JString s \<Rightarrow>
             (case fromisoformat s of
                None \<Rightarrow> Inr False
              | Some stored \<Rightarrow>
                  if aware stored then Inl TypeError
                  else Inr (now - seconds stored < real_of_int ttl_seconds))
         | _ \<Rightarrow> Inl TypeError))"

section \<open>Basic facts\<close>

lemma char_upper_idem: "char_upper (char_upper c) = char_upper c"
  unfolding char_upper_def Let_def by auto

lemma upper_idem: "upper (upper s) = upper s"
  by (simp add: upper_def char_upper_idem)

lemma validate_amount_zero:
  "validate_amount (PyFloat (Finite 0)) = Inl (ValueError NonPositiveAmount)"
  by (simp add: validate_amount_def num_le_zero_def num_value_def)

lemma deposit_zero: "deposit w (PyFloat (Finite 0)) = Inl (ValueError NonPositiveAmount)"
  by (simp add: deposit_def validate_amount_zero)

lemma Wallet_new_fails: "Wallet_new reg c \<noteq> Inr w"
  by (simp add: Wallet_new_def Wallet_init_def deposit_zero split: sum.splits)

lemma upper_registered:
  "upper ''USD'' = ''USD''" "upper ''EUR'' = ''EUR''" "upper ''GBP'' = ''GBP''"
  "upper ''RUB'' = ''RUB''" "upper ''BTC'' = ''BTC''" "upper ''ETH'' = ''ETH''"
  "upper ''SOL'' = ''SOL''"
  by code_simp+

lemma strip_BTC: "strip ''BTC'' = ''BTC''"
  by code_simp

lemma registry_BTC:
  "CURRENCY_REGISTRY ''BTC'' = Some (CryptoCurrency ''Bitcoin'' ''BTC'' ''SHA-256'' 1120000000000)"
  by (simp add: CURRENCY_REGISTRY_def register_currency_def upper_idem upper_registered)


subsection \<open>Rounding\<close>











text \<open>Some values, computed.\<close>

lemma round64_values:
  "round64 1 = Finite 1" "round64 2 = Finite 2" "round64 (1 / 2) = Finite (1 / 2)"
  "round64 3 = Finite 3" "round64 4 = Finite 4" "round64 5 = Finite 5" "round64 6 = Finite 6"
  "round64 7 = Finite 7" "round64 11 = Finite 11"
  "round64 10000000000000000 = Finite 10000000000000000"
  "round64 10000000000000001 = Finite 10000000000000000"
  "round64 10000000000000002 = Finite 10000000000000002"
  by (simp_all add: round64_def quantum_def ilog2_def compute_floorlog pow2_def round_half_even_def Let_def)





subsection \<open>Deposits and withdrawals of finite floats\<close>








subsection \<open>Runs with whole amounts\<close>





lemma net_exact_whole:
  "net_exact (Deposit (PyInt n) # xs) = of_int n + net_exact xs"
  "net_exact (Deposit (PyFloat (Finite (of_int n))) # xs) = of_int n + net_exact xs"
  "net_exact (Withdraw (PyInt n) # xs) = net_exact xs - of_int n"
  "net_exact (Withdraw (PyFloat (Finite (of_int n))) # xs) = net_exact xs - of_int n"
  by simp_all

lemma deposits_exact_whole:
  "deposits_exact (Deposit (PyInt n) # xs) = of_int n + deposits_exact xs"
  "deposits_exact (Deposit (PyFloat (Finite (of_int n))) # xs) = of_int n + deposits_exact xs"
  "deposits_exact (Withdraw a # xs) = deposits_exact xs"
  by simp_all





subsection \<open>Normalisation of currency codes\<close>





















subsection \<open>Aggregation runs\<close>

lemma split_on_nonempty: "split_on sep s \<noteq> []"
  by (induction s) (auto split: list.splits)

lemma split_on_two: "sep \<in> set s \<Longrightarrow> 2 \<le> length (split_on sep s)"
proof (induction s)
  case Nil
  then show ?case by simp
next
  case (Cons c cs)
  show ?case
  proof (cases "c = sep")
    case True
    with split_on_nonempty [of sep cs] show ?thesis
      by (cases "split_on sep cs") auto
  next
    case False
    with Cons have "2 \<le> length (split_on sep cs)" by simp
    with False show ?thesis by (cases "split_on sep cs") auto
  qed
qed

lemma make_history_record_ok:
  assumes "CHR ''_'' \<in> set k"
  shows "\<exists>h. make_history_record n k rd = Inr h"
proof -
  from split_on_two [OF assms] have "0 < length (split_on CHR ''_'' k)"
    and "1 < length (split_on CHR ''_'' k)" by auto
  then show ?thesis by (simp add: make_history_record_def item_def)
qed

lemma append_to_history_rates: "rates_file (append_to_history st h) = rates_file st"
  by (simp add: append_to_history_def Let_def)

lemma merge_new_rates_ok:
  assumes "list_all (\<lambda>(k, rd). CHR ''_'' \<in> set k) d"
  shows "\<exists>s'. merge_new_rates n d s = Inr s'
     \<and> current_pairs s' = current_pairs s ++ map_of (rev d)
     \<and> updated_pairs (results s') = updated_pairs (results s) @ map fst d
     \<and> errors (results s') = errors (results s)
     \<and> success (results s') = success (results s)
     \<and> timestamp (results s') = timestamp (results s)
     \<and> rates_file (store s') = rates_file (store s)"
  using assms
proof (induction d arbitrary: s)
  case Nil
  then show ?case by simp
next
  case (Cons x d)
  obtain k rd where x: "x = (k, rd)" by (cases x)
  from Cons.prems x have k: "CHR ''_'' \<in> set k"
    and d: "list_all (\<lambda>(k, rd). CHR ''_'' \<in> set k) d" by auto
  from make_history_record_ok [OF k] obtain h where h: "make_history_record n k rd = Inr h"
    by blast
  define s1 where "s1 = s\<lparr>current_pairs := (current_pairs s)(k \<mapsto> rd),
      results := (results s)\<lparr>updated_pairs := updated_pairs (results s) @ [k]\<rparr>,
      store := append_to_history (store s) h\<rparr>"
  from Cons.IH [OF d, of s1] obtain s' where s': "merge_new_rates n d s1 = Inr s'"
    and cp: "current_pairs s' = current_pairs s1 ++ map_of (rev d)"
    and up: "updated_pairs (results s') = updated_pairs (results s1) @ map fst d"
    and rest: "errors (results s') = errors (results s1)"
      "success (results s') = success (results s1)"
      "timestamp (results s') = timestamp (results s1)"
      "rates_file (store s') = rates_file (store s1)"
    by blast
  have step: "merge_new_rates n (x # d) s = merge_new_rates n d s1"
    by (simp add: x h s1_def Let_def)
  have "current_pairs s1 ++ map_of (rev d) = current_pairs s ++ map_of (rev (x # d))"
    by (simp add: s1_def x map_add_def fun_eq_iff split: option.splits)
  with s' cp up rest step show ?case
    by (simp add: s1_def x append_to_history_rates)
qed

lemma poll_clients_ok:
  assumes "list_all well_formed_keys cs"
  shows "\<exists>s'. poll_clients cs s = Inr s'
     \<and> current_pairs s' = current_pairs s ++ map_of (rev (concat (map fetched cs)))
     \<and> updated_pairs (results s') = updated_pairs (results s) @ map fst (concat (map fetched cs))
     \<and> errors (results s') = errors (results s) @ concat (map failure cs)
     \<and> success (results s') = (success (results s) \<and> (\<forall>c \<in> set cs. \<not> isl (fetch_rates c)))
     \<and> timestamp (results s') = timestamp (results s)
     \<and> rates_file (store s') = rates_file (store s)"
  using assms
proof (induction cs arbitrary: s)
  case Nil
  then show ?case by simp
next
  case (Cons c cs)
  from Cons.prems have wc: "well_formed_keys c" and wcs: "list_all well_formed_keys cs" by auto
  show ?case
  proof (cases "fetch_rates c")
    case (Inl e)
    define s1 where "s1 = s\<lparr>results := (results s)\<lparr>errors := errors (results s)
        @ [error_msg (class_name (kind c)) e], success := False\<rparr>\<rparr>"
    from Cons.IH [OF wcs, of s1] obtain s' where "poll_clients cs s1 = Inr s'"
      and "current_pairs s' = current_pairs s1 ++ map_of (rev (concat (map fetched cs)))"
      and "updated_pairs (results s') = updated_pairs (results s1) @ map fst (concat (map fetched cs))"
      and "errors (results s') = errors (results s1) @ concat (map failure cs)"
      and "success (results s') = (success (results s1) \<and> (\<forall>c \<in> set cs. \<not> isl (fetch_rates c)))"
      and "timestamp (results s') = timestamp (results s1)"
      and "rates_file (store s') = rates_file (store s1)"
      by blast
    moreover have "poll_clients (c # cs) s = poll_clients cs s1"
      by (simp add: Inl s1_def Let_def)
    moreover have "fetched c = []" "failure c = [error_msg (class_name (kind c)) e]"
      "isl (fetch_rates c)"
      by (simp_all add: Inl fetched_def failure_def)
    ultimately show ?thesis
      by (simp add: s1_def)
  next
    case (Inr d)
    with wc have "list_all (\<lambda>(k, rd). CHR ''_'' \<in> set k) d"
      by (simp add: well_formed_keys_def fetched_def)
    from merge_new_rates_ok [OF this, of "class_name (kind c)" s]
    obtain s1 where m: "merge_new_rates (class_name (kind c)) d s = Inr s1"
      and m1: "current_pairs s1 = current_pairs s ++ map_of (rev d)"
      and m2: "updated_pairs (results s1) = updated_pairs (results s) @ map fst d"
      and m3: "errors (results s1) = errors (results s)"
        "success (results s1) = success (results s)"
        "timestamp (results s1) = timestamp (results s)"
        "rates_file (store s1) = rates_file (store s)"
      by blast
    from Cons.IH [OF wcs, of s1] obtain s' where "poll_clients cs s1 = Inr s'"
      and "current_pairs s' = current_pairs s1 ++ map_of (rev (concat (map fetched cs)))"
      and "updated_pairs (results s') = updated_pairs (results s1) @ map fst (concat (map fetched cs))"
      and "errors (results s') = errors (results s1) @ concat (map failure cs)"
      and "success (results s') = (success (results s1) \<and> (\<forall>c \<in> set cs. \<not> isl (fetch_rates c)))"
      and "timestamp (results s') = timestamp (results s1)"
      and "rates_file (store s') = rates_file (store s1)"
      by blast
    moreover have "poll_clients (c # cs) s = poll_clients cs s1"
      by (simp add: Inr m Let_def)
    moreover have "fetched c = d" "failure c = []" "\<not> isl (fetch_rates c)"
      by (simp_all add: Inr fetched_def failure_def)
    ultimately show ?thesis
      by (simp add: m1 m2 m3 map_add_assoc)
  qed
qed

lemma run_update_ok:
  assumes "list_all well_formed_keys (clients_to_use src clients)"
  shows "\<exists>res st'. run_update st clients src t0 t1 = Inr (res, st')
     \<and> errors res = concat (map failure (clients_to_use src clients))
     \<and> success res = (\<forall>c \<in> set (clients_to_use src clients). \<not> isl (fetch_rates c))
     \<and> updated_pairs res = map fst (concat (map fetched (clients_to_use src clients)))
     \<and> timestamp res = t0
     \<and> last_refresh (rates_file st') = Some t1
     \<and> pairs (rates_file st')
         = Some ((case pairs (rates_file st) of None \<Rightarrow> Map.empty | Some m \<Rightarrow> m)
                 ++ map_of (rev (concat (map fetched (clients_to_use src clients)))))"
proof -
  define s0 where "s0 = \<lparr>current_pairs = (case pairs (rates_file st) of None \<Rightarrow> Map.empty | Some m \<Rightarrow> m),
      results = \<lparr>success = True, updated_pairs = [], errors = [], timestamp = t0\<rparr>, store = st\<rparr>"
  from poll_clients_ok [OF assms, of s0] obtain s' where
    p: "poll_clients (clients_to_use src clients) s0 = Inr s'"
    and "current_pairs s' = current_pairs s0 ++ map_of (rev (concat (map fetched (clients_to_use src clients))))"
    and "updated_pairs (results s') = updated_pairs (results s0) @ map fst (concat (map fetched (clients_to_use src clients)))"
    and "errors (results s') = errors (results s0) @ concat (map failure (clients_to_use src clients))"
    and "success (results s') = (success (results s0) \<and> (\<forall>c \<in> set (clients_to_use src clients). \<not> isl (fetch_rates c)))"
    and "timestamp (results s') = timestamp (results s0)"
    and "rates_file (store s') = rates_file (store s0)"
    by blast
  moreover have "run_update st clients src t0 t1
      = Inr (results s', save_current_rates (store s')
          ((rates_file st)\<lparr>pairs := Some (current_pairs s'), last_refresh := Some t1\<rparr>) t1)"
    using p by (simp add: run_update_def load_current_rates_def s0_def Let_def)
  ultimately show ?thesis
    by (simp add: s0_def save_current_rates_def)
qed

lemma lower_CoinGecko: "lower ''CoinGecko'' = ''coingecko''"
  by code_simp

lemma lower_binance: "lower ''binance'' = ''binance''"
  by code_simp

subsection \<open>Freshness\<close>

text \<open>For a stored string the check does what is specified, unless the time carries an offset.\<close>

lemma are_rates_fresh_string:
  "map_of rates ''last_refresh'' = Some (JString s) \<Longrightarrow>
   are_rates_fresh f now ttl rates =
     (case f s of
        None \<Rightarrow> Inr False
      | Some d \<Rightarrow> if aware d then Inl TypeError else Inr (now - seconds d < real_of_int ttl))"
  by (auto simp: are_rates_fresh_def)

lemma are_rates_fresh_absent:
  "map_of rates ''last_refresh'' = None \<Longrightarrow> are_rates_fresh f now ttl rates = Inr False"
  by (simp add: are_rates_fresh_def)

section \<open>Claims\<close>

text \<open>
  C1. Getting or creating the wallet of a registered currency that the portfolio does not
  hold should return a new wallet with balance 0. The constructor deposits its default
  initial balance 0.0 through \<open>deposit\<close>, whose validation rejects every amount
  \<open>\<le> 0\<close>: for the registered code BTC and an empty portfolio \<open>add_currency\<close>
  raises the ValueError of \<open>_validate_amount\<close> and creates nothing.
\<close>

theorem add_currency_registered_code_raises:
  "get_currency CURRENCY_REGISTRY ''BTC''
     = Inr (CryptoCurrency ''Bitcoin'' ''BTC'' ''SHA-256'' 1120000000000)
   \<and> map_of (wallets (Portfolio_init 1)) (upper ''BTC'') = None
   \<and> add_currency CURRENCY_REGISTRY (Portfolio_init 1) ''BTC''
     = Inl (ValueError NonPositiveAmount)"
  by (simp add: add_currency_def Portfolio_init_def Wallet_new_def Wallet_init_def
      validate_currency_def get_currency_def deposit_zero upper_registered strip_BTC registry_BTC)

text \<open>
  C2. Resolving a currency to itself should give 1.0 whatever is cached.
  \<open>_get_exchange_rate\<close> has no case for equal codes: with the rates of a fresh
  installation USD to USD finds no pair \<open>USD_USD\<close> and raises, and so does BTC to BTC on
  an empty cache. (\<open>Portfolio.get_total_value\<close> does treat a wallet in the base currency
  as worth its balance.)
\<close>

theorem get_exchange_rate_same_currency_raises:
  "TradingUsecases_get_exchange_rate initial_rates ''USD'' ''USD''
     = Inl (ValueError (RateNotFound ''USD'' ''USD''))
   \<and> TradingUsecases_get_exchange_rate Map.empty ''BTC'' ''BTC''
     = Inl (ValueError (RateNotFound ''BTC'' ''BTC''))"
  by (simp add: TradingUsecases_get_exchange_rate_def through_base_def initial_rates_def
      pair_key_def Let_def)

text \<open>
  C3. For two distinct currencies \<open>_get_exchange_rate\<close> computes what the specified
  resolver with anchor USD computes: the first of the direct pair, the inverse pair
  (1 / rate), the triangulation with one side equal to the anchor, the double
  triangulation through the anchor; and the error naming both currencies when none
  of them yields a value.
\<close>

theorem get_exchange_rate_follows_resolve_order:
  "f \<noteq> t \<Longrightarrow> TradingUsecases_get_exchange_rate ps f t = resolve ''USD'' ps f t"
  unfolding TradingUsecases_get_exchange_rate_def through_base_def resolve_def direct_rate_def
    inverse_rate_def from_anchor_rate_def to_anchor_rate_def double_rate_def Let_def
  by (auto split: option.splits)

theorem get_exchange_rate_follows_resolve_order_witness:
  "''A'' \<noteq> ''B''
   \<and> TradingUsecases_get_exchange_rate [''A_USD'' \<mapsto> Finite 2, ''B_USD'' \<mapsto> Finite 4] ''A'' ''B''
     = Inr (Finite (1/2))
   \<and> resolve ''USD'' [''A_USD'' \<mapsto> Finite 2, ''B_USD'' \<mapsto> Finite 4] ''A'' ''B'' = Inr (Finite (1/2))"
  using get_exchange_rate_follows_resolve_order
    [of "''A''" "''B''" "[''A_USD'' \<mapsto> Finite 2, ''B_USD'' \<mapsto> Finite 4]"]
  by (simp add: TradingUsecases_get_exchange_rate_def through_base_def pair_key_def Let_def
      round64_values)

text \<open>
  C4, as first stated: a run whose source filter matches no configured provider uses an
  empty provider list. A name other than the two known ones does not narrow the list at
  all: with the source \<open>binance\<close> and the two clients of \<open>update_rates\<close>, the first
  returning one pair and the second raising for its missing key, the run polls both,
  updates a pair and reports the failure.
\<close>

theorem unknown_source_runs_all_clients:
  "run_update
      \<lparr>rates_file = \<lparr>pairs = None, last_refresh = None\<rparr>, history_file = []\<rparr>
      [\<lparr>kind = CoinGeckoClient,
         fetch_rates = Inr [(''BTC_USD'', \<lparr>rd_rate = Finite 59337.21,
                              updated_at = ''2024-01-01T00:00:00Z'', source = ''CoinGecko''\<rparr>)]\<rparr>,
       \<lparr>kind = ExchangeRateApiClient, fetch_rates = Inl ''no key''\<rparr>]
      (Some ''binance'') ''t0'' ''t1''
   = Inr (\<lparr>success = False, updated_pairs = [''BTC_USD''],
            errors = [''Failed to fetch rates from ExchangeRateApiClient: no key''],
            timestamp = ''t0''\<rparr>,
          \<lparr>rates_file =
             \<lparr>pairs = Some [''BTC_USD'' \<mapsto> \<lparr>rd_rate = Finite 59337.21,
                                updated_at = ''2024-01-01T00:00:00Z'', source = ''CoinGecko''\<rparr>],
              last_refresh = Some ''t1''\<rparr>,
            history_file =
              [\<lparr>hr_id = ''BTC_USD_2024-01-01T00:00:00Z'', from_currency = ''BTC'',
                to_currency = ''USD'', hr_rate = Finite 59337.21,
                hr_timestamp = ''2024-01-01T00:00:00Z'', hr_source = ''CoinGecko'',
                meta_client = ''CoinGeckoClient''\<rparr>]\<rparr>)"
  by (simp add: run_update_def clients_to_use_def lower_binance load_current_rates_def
      save_current_rates_def make_history_record_def item_def append_to_history_def
      MAX_HISTORY_SIZE_def error_msg_def Let_def)

text \<open>
  C4, amended. When the source is \<open>coingecko\<close> or \<open>exchangerate\<close>, in any letter case,
  and no configured client is of that class, the run uses an empty client list: it
  updates no pair, returns \<open>success = True\<close> with no errors, and still saves the document
  with the new \<open>last_refresh\<close>. Any other source name leaves the client list as it is.
\<close>

theorem known_source_without_client_is_noop:
  "((lower s = ''coingecko'' \<and> (\<forall>c \<in> set clients. kind c \<noteq> CoinGeckoClient))
     \<or> (lower s = ''exchangerate'' \<and> (\<forall>c \<in> set clients. kind c \<noteq> ExchangeRateApiClient))
    \<longrightarrow> clients_to_use (Some s) clients = []
      \<and> run_update st clients (Some s) t0 t1
        = Inr (\<lparr>success = True, updated_pairs = [], errors = [], timestamp = t0\<rparr>,
               st\<lparr>rates_file :=
                    (rates_file st)\<lparr>pairs := Some (case pairs (rates_file st) of
                                                     None \<Rightarrow> Map.empty | Some m \<Rightarrow> m),
                                     last_refresh := Some t1\<rparr>\<rparr>))
   \<and> (lower s2 \<noteq> ''coingecko'' \<and> lower s2 \<noteq> ''exchangerate''
      \<longrightarrow> clients_to_use (Some s2) clients = clients)"
proof (intro conjI impI)
  assume a: "(lower s = ''coingecko'' \<and> (\<forall>c \<in> set clients. kind c \<noteq> CoinGeckoClient))
     \<or> (lower s = ''exchangerate'' \<and> (\<forall>c \<in> set clients. kind c \<noteq> ExchangeRateApiClient))"
  then have "s \<noteq> []" by (auto simp: lower_def)
  with a show e: "clients_to_use (Some s) clients = []"
    by (auto simp: clients_to_use_def Let_def filter_empty_conv)
  show "run_update st clients (Some s) t0 t1
        = Inr (\<lparr>success = True, updated_pairs = [], errors = [], timestamp = t0\<rparr>,
               st\<lparr>rates_file :=
                    (rates_file st)\<lparr>pairs := Some (case pairs (rates_file st) of
                                                     None \<Rightarrow> Map.empty | Some m \<Rightarrow> m),
                                     last_refresh := Some t1\<rparr>\<rparr>)"
    by (simp add: run_update_def e load_current_rates_def save_current_rates_def Let_def)
next
  assume "lower s2 \<noteq> ''coingecko'' \<and> lower s2 \<noteq> ''exchangerate''"
  then show "clients_to_use (Some s2) clients = clients"
    by (simp add: clients_to_use_def Let_def)
qed

theorem known_source_without_client_is_noop_witness:
  "lower ''CoinGecko'' = ''coingecko''
   \<and> list_all (\<lambda>c. kind c \<noteq> CoinGeckoClient)
        [\<lparr>kind = ExchangeRateApiClient, fetch_rates = Inl ''no key''\<rparr>]
   \<and> run_update \<lparr>rates_file = \<lparr>pairs = None, last_refresh = None\<rparr>, history_file = []\<rparr>
        [\<lparr>kind = ExchangeRateApiClient, fetch_rates = Inl ''no key''\<rparr>]
        (Some ''CoinGecko'') ''t0'' ''t1''
     = Inr (\<lparr>success = True, updated_pairs = [], errors = [], timestamp = ''t0''\<rparr>,
            \<lparr>rates_file = \<lparr>pairs = Some Map.empty, last_refresh = Some ''t1''\<rparr>,
              history_file = []\<rparr>)
   \<and> lower ''binance'' \<noteq> ''coingecko'' \<and> lower ''binance'' \<noteq> ''exchangerate''
   \<and> clients_to_use (Some ''binance'')
        [\<lparr>kind = ExchangeRateApiClient, fetch_rates = Inl ''no key''\<rparr>]
     = [\<lparr>kind = ExchangeRateApiClient, fetch_rates = Inl ''no key''\<rparr>]"
  using known_source_without_client_is_noop
    [of "''CoinGecko''" "[\<lparr>kind = ExchangeRateApiClient, fetch_rates = Inl ''no key''\<rparr>]"
        "\<lparr>rates_file = \<lparr>pairs = None, last_refresh = None\<rparr>, history_file = []\<rparr>"
        "''t0''" "''t1''" "''binance''"]
  by (simp add: lower_CoinGecko lower_binance)

text \<open>
  C5. In a run over the selected clients, whose fetched pair keys have the form
  \<open>FROM_TO\<close>: the run returns a summary; its error list holds one message for each
  client that raised, in order, and the clients after it are still polled;
  \<open>success\<close> is true exactly when no client raised; \<open>updated_pairs\<close> lists the keys
  of every fetched pair; the saved document carries the new \<open>last_refresh\<close> and the old
  pairs overwritten by the fetched ones, whether or not a client failed.
\<close>

theorem run_update_tolerates_failures:
  "list_all well_formed_keys (clients_to_use src clients) \<longrightarrow>
   (\<exists>res st'. run_update st clients src t0 t1 = Inr (res, st')
     \<and> errors res = concat (map failure (clients_to_use src clients))
     \<and> success res = (\<forall>c \<in> set (clients_to_use src clients). \<not> isl (fetch_rates c))
     \<and> updated_pairs res = map fst (concat (map fetched (clients_to_use src clients)))
     \<and> timestamp res = t0
     \<and> last_refresh (rates_file st') = Some t1
     \<and> pairs (rates_file st')
         = Some ((case pairs (rates_file st) of None \<Rightarrow> Map.empty | Some m \<Rightarrow> m)
                 ++ map_of (rev (concat (map fetched (clients_to_use src clients))))))"
  using run_update_ok [of src clients st t0 t1] by blast

theorem run_update_tolerates_failures_witness:
  "list_all well_formed_keys
      (clients_to_use None
        [\<lparr>kind = ExchangeRateApiClient, fetch_rates = Inl ''no key''\<rparr>,
         \<lparr>kind = CoinGeckoClient,
           fetch_rates = Inr [(''X_USD'', \<lparr>rd_rate = Finite 10, updated_at = ''u'', source = ''CoinGecko''\<rparr>)]\<rparr>])
   \<and> (\<exists>res st'.
        run_update \<lparr>rates_file = \<lparr>pairs = None, last_refresh = None\<rparr>, history_file = []\<rparr>
          [\<lparr>kind = ExchangeRateApiClient, fetch_rates = Inl ''no key''\<rparr>,
           \<lparr>kind = CoinGeckoClient,
             fetch_rates = Inr [(''X_USD'', \<lparr>rd_rate = Finite 10, updated_at = ''u'', source = ''CoinGecko''\<rparr>)]\<rparr>]
          None ''t0'' ''t1'' = Inr (res, st')
        \<and> errors res = [''Failed to fetch rates from ExchangeRateApiClient: no key'']
        \<and> success res = False
        \<and> updated_pairs res = [''X_USD'']
        \<and> timestamp res = ''t0''
        \<and> last_refresh (rates_file st') = Some ''t1''
        \<and> pairs (rates_file st')
            = Some [''X_USD'' \<mapsto> \<lparr>rd_rate = Finite 10, updated_at = ''u'', source = ''CoinGecko''\<rparr>])"
  using run_update_tolerates_failures
    [of None
        "[\<lparr>kind = ExchangeRateApiClient, fetch_rates = Inl ''no key''\<rparr>,
          \<lparr>kind = CoinGeckoClient,
            fetch_rates = Inr [(''X_USD'', \<lparr>rd_rate = Finite 10, updated_at = ''u'', source = ''CoinGecko''\<rparr>)]\<rparr>]"
        "\<lparr>rates_file = \<lparr>pairs = None, last_refresh = None\<rparr>, history_file = []\<rparr>"
        "''t0''" "''t1''"]
  by (simp add: clients_to_use_def well_formed_keys_def fetched_def failure_def error_msg_def)

text \<open>
  C7. A stored \<open>last_refresh\<close> that cannot be parsed should make the check answer
  \<open>False\<close> without an exception. The \<open>try\<close> block catches ValueError only: a
  \<open>last_refresh\<close> that is a number or null makes \<open>fromisoformat\<close> raise TypeError, and
  a time with a UTC offset makes the subtraction raise TypeError; both leave the
  function as exceptions, whatever the clock and the TTL.
\<close>

theorem are_rates_fresh_raises_type_error:
  "are_rates_fresh fromisoformat now ttl
      [(''pairs'', JContainer), (''last_refresh'', JNumber 1700000000)] = Inl TypeError
   \<and> are_rates_fresh fromisoformat now ttl
      [(''pairs'', JContainer), (''last_refresh'', JNull)] = Inl TypeError
   \<and> are_rates_fresh (\<lambda>s. Some \<lparr>seconds = 1704067200, aware = True\<rparr>) now ttl
      [(''pairs'', JContainer), (''last_refresh'', JString ''2024-01-01T00:00:00+00:00'')]
     = Inl TypeError"
  by (simp add: are_rates_fresh_def)










end
